theory Spec2Isabelle
  imports Complex_Main
begin

section \<open>Python strings\<close>

text \<open>
  A Python \<open>str\<close> is modelled as a \<^typ>\<open>string\<close>: a list of characters with code points
  0 to 255.  \<open>py_isspace\<close> is \<open>str.isspace\<close> on one such character, \<open>py_lower\<close> is the
  simple lower-case mapping that the regular-expression engine applies to a character
  under \<open>re.IGNORECASE\<close>.
\<close>

definition py_isspace :: "char \<Rightarrow> bool" where
  "py_isspace c =
     (let n = (of_char c :: nat)
      in (9 \<le> n \<and> n \<le> 13) \<or> (28 \<le> n \<and> n \<le> 32) \<or> n = 133 \<or> n = 160)"

definition py_lower :: "char \<Rightarrow> char" where
  "py_lower c =
     (let n = (of_char c :: nat)
      in if (65 \<le> n \<and> n \<le> 90) \<or> (192 \<le> n \<and> n \<le> 222 \<and> n \<noteq> 215)
         then char_of (n + 32) else c)"

definition py_isalnum_ascii :: "char \<Rightarrow> bool" where
  "py_isalnum_ascii c =
     (let n = (of_char c :: nat)
      in (48 \<le> n \<and> n \<le> 57) \<or> (65 \<le> n \<and> n \<le> 90) \<or> (97 \<le> n \<and> n \<le> 122))"

definition py_strip :: "string \<Rightarrow> string" where
  "py_strip s = rev (dropWhile py_isspace (rev (dropWhile py_isspace s)))"

text \<open>\<open>s.split(sep, maxsplit)\<close> for a separator of one character.\<close>

fun py_split_max :: "char \<Rightarrow> nat \<Rightarrow> string \<Rightarrow> string list" where
  "py_split_max sep n [] = [[]]"
| "py_split_max sep 0 (c # cs) = [c # cs]"
| "py_split_max sep (Suc n) (c # cs) =
     (if c = sep then [] # py_split_max sep n cs
      else (case py_split_max sep (Suc n) cs of
              [] \<Rightarrow> [[c]]
            | p # ps \<Rightarrow> (c # p) # ps))"

text \<open>\<open>s.split(sep)\<close>: no bound on the number of splits.\<close>

definition py_split :: "char \<Rightarrow> string \<Rightarrow> string list" where
  "py_split sep s = py_split_max sep (length s) s"

section \<open>Regular expressions: the fragment of \<open>re\<close> the bridge uses\<close>

text \<open>
  The patterns of the source are built from literal characters, \<open>\\.\<close> escapes, the dot,
  capturing groups, alternation, greedy repeats of one-character items and character
  sets.  \<open>re_parse\<close> follows the parser of Python's \<open>re\<close> module on that fragment, with
  its errors and their positions; syntax outside the fragment is answered by
  \<open>Unsupported\<close>, which is a limit of this model and not an error of Python.
\<close>

datatype item =
    Literal char
  | AnyChar
  | InSet "(char \<times> char) list"

datatype regex =
    Eps
  | One item
  | MaxRepeat nat "nat option" item
  | Subpattern nat regex
  | Cat regex regex
  | Branch regex regex

datatype re_error =
    NothingToRepeat nat
  | MultipleRepeat nat
  | UnbalancedParenthesis nat
  | MissingParenthesis nat
  | UnterminatedCharacterSet nat
  | BadCharacterRange nat
  | BadEscapeEnd nat
  | Unsupported nat

text \<open>
  The parser keeps the branches and the items of the group being read (both newest
  first), and a stack of the enclosing groups: for each, its number, the position of its
  opening parenthesis and what had been read of the enclosing group.
\<close>

record frame =
  branches :: "regex list"
  items :: "regex list"

record pstate =
  cur :: frame
  stack :: "(nat \<times> nat \<times> frame) list"
  ngroups :: nat
  charset :: "(nat \<times> (char \<times> char) list) option"

definition seq_of :: "regex list \<Rightarrow> regex" where
  "seq_of rs = (case rs of [] \<Rightarrow> Eps | r # rest \<Rightarrow> foldl (\<lambda>acc x. Cat x acc) r rest)"

definition branch_of :: "frame \<Rightarrow> regex" where
  "branch_of f =
     foldl (\<lambda>acc x. Branch x acc) (seq_of (items f)) (branches f)"

definition push_item :: "regex \<Rightarrow> pstate \<Rightarrow> pstate" where
  "push_item r st = st\<lparr>cur := (cur st)\<lparr>items := r # items (cur st)\<rparr>\<rparr>"

definition empty_frame :: frame where
  "empty_frame = \<lparr>branches = [], items = []\<rparr>"

definition initial_pstate :: pstate where
  "initial_pstate = \<lparr>cur = empty_frame, stack = [], ngroups = 0, charset = None\<rparr>"

text \<open>A repeat operator applied to the item read last.\<close>

definition repeat_last :: "nat \<Rightarrow> nat \<Rightarrow> nat option \<Rightarrow> pstate \<Rightarrow> re_error + pstate" where
  "repeat_last pos lo hi st =
     (case items (cur st) of
        [] \<Rightarrow> Inl (NothingToRepeat pos)
      | One it # rest \<Rightarrow> Inr (st\<lparr>cur := (cur st)\<lparr>items := MaxRepeat lo hi it # rest\<rparr>\<rparr>)
      | MaxRepeat _ _ _ # rest \<Rightarrow> Inl (MultipleRepeat pos)
      | _ # rest \<Rightarrow> Inl (Unsupported pos))"

definition close_group :: "nat \<Rightarrow> pstate \<Rightarrow> re_error + pstate" where
  "close_group pos st =
     (case stack st of
        [] \<Rightarrow> Inl (UnbalancedParenthesis pos)
      | (g, opened, outer) # below \<Rightarrow>
          Inr (st\<lparr>cur := outer\<lparr>items := Subpattern g (branch_of (cur st)) # items outer\<rparr>,
                  stack := below\<rparr>))"

definition open_group :: "nat \<Rightarrow> pstate \<Rightarrow> pstate" where
  "open_group pos st =
     st\<lparr>cur := empty_frame,
        stack := (Suc (ngroups st), pos, cur st) # stack st,
        ngroups := Suc (ngroups st)\<rparr>"

definition next_branch :: "pstate \<Rightarrow> pstate" where
  "next_branch st =
     st\<lparr>cur := \<lparr>branches = seq_of (items (cur st)) # branches (cur st), items = []\<rparr>\<rparr>"

definition close_set :: "(char \<times> char) list \<Rightarrow> pstate \<Rightarrow> pstate" where
  "close_set rs st = push_item (One (InSet (rev rs))) (st\<lparr>charset := None\<rparr>)"

definition finish :: "nat \<Rightarrow> pstate \<Rightarrow> re_error + regex" where
  "finish pos st =
     (case charset st of
        Some (opened, rs) \<Rightarrow> Inl (UnterminatedCharacterSet opened)
      | None \<Rightarrow>
          (case stack st of
             (g, opened, outer) # below \<Rightarrow> Inl (MissingParenthesis opened)
           | [] \<Rightarrow> Inr (branch_of (cur st))))"


text \<open>
  One step inside a character set \<open>[...]\<close>: the result is the new state and the number of
  characters read after \<open>c\<close>.  A \<open>]\<close> closes the set unless it is its first character;
  \<open>a-b\<close> is a range, and a \<open>-\<close> right before the closing \<open>]\<close> is a literal.
\<close>

definition add_range :: "nat \<Rightarrow> char \<Rightarrow> char \<Rightarrow> nat \<Rightarrow> (char \<times> char) list \<Rightarrow> pstate \<Rightarrow> nat
    \<Rightarrow> re_error + (pstate \<times> nat)" where
  "add_range pos lo hi opened rs st used =
     (if (of_char hi :: nat) < of_char lo then Inl (BadCharacterRange pos)
      else Inr (st\<lparr>charset := Some (opened, (lo, hi) # rs)\<rparr>, used))"

definition set_member :: "nat \<Rightarrow> nat \<Rightarrow> (char \<times> char) list \<Rightarrow> pstate \<Rightarrow> char \<Rightarrow> string \<Rightarrow> nat
    \<Rightarrow> re_error + (pstate \<times> nat)" where
  "set_member pos opened rs st code1 rest used =
     (case rest of
        d # rest1 \<Rightarrow>
          (if d = CHR ''-'' then
             (case rest1 of
                [] \<Rightarrow> Inl (UnterminatedCharacterSet opened)
              | t # rest2 \<Rightarrow>
                  if t = CHR '']'' then
                    Inr (close_set ((CHR ''-'', CHR ''-'') # (code1, code1) # rs) st, used + 2)
                  else if t = CHR 0x5C then
                    (case rest2 of
                       [] \<Rightarrow> Inl (Unsupported pos)
                     | e # _ \<Rightarrow>
                         if py_isalnum_ascii e then Inl (Unsupported pos)
                         else add_range pos code1 e opened rs st (used + 3))
                  else add_range pos code1 t opened rs st (used + 2))
           else Inr (st\<lparr>charset := Some (opened, (code1, code1) # rs)\<rparr>, used))
      | [] \<Rightarrow> Inr (st\<lparr>charset := Some (opened, (code1, code1) # rs)\<rparr>, used))"

definition set_step :: "nat \<Rightarrow> nat \<Rightarrow> (char \<times> char) list \<Rightarrow> pstate \<Rightarrow> char \<Rightarrow> string
    \<Rightarrow> re_error + (pstate \<times> nat)" where
  "set_step pos opened rs st c cs =
     (if c = CHR '']'' \<and> rs \<noteq> [] then Inr (close_set rs st, 0)
      else if c = CHR 0x5C then
        (case cs of
           [] \<Rightarrow> Inl (Unsupported pos)
         | e # cs1 \<Rightarrow>
             if py_isalnum_ascii e then Inl (Unsupported pos)
             else set_member pos opened rs st e cs1 1)
      else set_member pos opened rs st c cs 0)"

text \<open>
  One step outside a character set.  A repeat operator with no item before it in its
  branch is the error \<open>nothing to repeat\<close>, at the position of the operator.
\<close>

definition repeat_step :: "nat \<Rightarrow> nat \<Rightarrow> nat option \<Rightarrow> pstate \<Rightarrow> string \<Rightarrow> re_error + (pstate \<times> nat)" where
  "repeat_step pos lo hi st cs =
     (case repeat_last pos lo hi st of
        Inl e \<Rightarrow> Inl e
      | Inr st' \<Rightarrow>
          (case cs of
             [] \<Rightarrow> Inr (st', 0)
           | d # _ \<Rightarrow> if d = CHR ''?'' \<or> d = CHR ''+'' then Inl (Unsupported pos) else Inr (st', 0)))"

definition normal_step :: "nat \<Rightarrow> pstate \<Rightarrow> char \<Rightarrow> string \<Rightarrow> re_error + (pstate \<times> nat)" where
  "normal_step pos st c cs =
     (if c = CHR 0x5C then
        (case cs of
           [] \<Rightarrow> Inl (Unsupported pos)
         | e # _ \<Rightarrow>
             if py_isalnum_ascii e then Inl (Unsupported pos)
             else Inr (push_item (One (Literal e)) st, 1))
      else if c = CHR ''.'' then Inr (push_item (One AnyChar) st, 0)
      else if c = CHR ''['' then
        (case cs of
           [] \<Rightarrow> Inl (UnterminatedCharacterSet pos)
         | d # _ \<Rightarrow>
             if d = CHR ''^'' then Inl (Unsupported pos)
             else Inr (st\<lparr>charset := Some (pos, [])\<rparr>, 0))
      else if c = CHR ''*'' then repeat_step pos 0 None st cs
      else if c = CHR ''+'' then repeat_step pos 1 None st cs
      else if c = CHR ''?'' then repeat_step pos 0 (Some 1) st cs
      else if c = CHR ''{'' \<or> c = CHR ''^'' \<or> c = CHR ''$'' then Inl (Unsupported pos)
      else if c = CHR ''('' then
        (case cs of
           [] \<Rightarrow> Inl (MissingParenthesis pos)
         | d # _ \<Rightarrow>
             if d = CHR ''?'' then Inl (Unsupported pos) else Inr (open_group pos st, 0))
      else if c = CHR '')'' then
        (case close_group pos st of Inl e \<Rightarrow> Inl e | Inr st' \<Rightarrow> Inr (st', 0))
      else if c = CHR ''|'' then Inr (next_branch st, 0)
      else Inr (push_item (One (Literal c)) st, 0))"

definition re_step :: "nat \<Rightarrow> pstate \<Rightarrow> char \<Rightarrow> string \<Rightarrow> re_error + (pstate \<times> nat)" where
  "re_step pos st c cs =
     (case charset st of
        Some (opened, rs) \<Rightarrow> set_step pos opened rs st c cs
      | None \<Rightarrow> normal_step pos st c cs)"

fun re_parse_loop :: "nat \<Rightarrow> pstate \<Rightarrow> string \<Rightarrow> re_error + regex" where
  "re_parse_loop pos st [] = finish pos st"
| "re_parse_loop pos st (c # cs) =
     (case re_step pos st c cs of
        Inl e \<Rightarrow> Inl e
      | Inr (st', used) \<Rightarrow> re_parse_loop (pos + 1 + used) st' (drop used cs))"

definition re_parse :: "string \<Rightarrow> re_error + regex" where
  "re_parse pat = re_parse_loop 0 initial_pstate pat"

text \<open>
  A compiled pattern: the parsed expression and whether \<open>re.IGNORECASE\<close> was given.
  Character sets under \<open>re.IGNORECASE\<close> are outside the fragment.
\<close>

primrec has_set :: "regex \<Rightarrow> bool" where
  "has_set Eps = False"
| "has_set (One it) = (case it of InSet _ \<Rightarrow> True | _ \<Rightarrow> False)"
| "has_set (MaxRepeat lo hi it) = (case it of InSet _ \<Rightarrow> True | _ \<Rightarrow> False)"
| "has_set (Subpattern g r) = has_set r"
| "has_set (Cat r1 r2) = (has_set r1 \<or> has_set r2)"
| "has_set (Branch r1 r2) = (has_set r1 \<or> has_set r2)"

record pattern =
  ignorecase :: bool
  prog :: regex

definition re_compile :: "string \<Rightarrow> bool \<Rightarrow> re_error + pattern" where
  "re_compile pat ic =
     (case re_parse pat of
        Inl e \<Rightarrow> Inl e
      | Inr r \<Rightarrow>
          if ic \<and> has_set r then Inl (Unsupported 0)
          else Inr \<lparr>ignorecase = ic, prog = r\<rparr>)"


subsection \<open>Matching\<close>

text \<open>
  \<open>item_matches\<close> tests one character.  \<open>rmatch\<close> gives every way an expression can
  match a prefix of the input, in the order in which the backtracking engine tries them:
  each result is the unread rest of the input and the groups captured (newest first).
  A greedy repeat of a one-character item tries the longest run first.
\<close>

definition item_matches :: "bool \<Rightarrow> item \<Rightarrow> char \<Rightarrow> bool" where
  "item_matches ic it c =
     (case it of
        Literal l \<Rightarrow> if ic then py_lower c = py_lower l else c = l
      | AnyChar \<Rightarrow> c \<noteq> CHR 0x0A
      | InSet rs \<Rightarrow>
          list_ex (\<lambda>(lo, hi). (of_char lo :: nat) \<le> of_char c \<and> (of_char c :: nat) \<le> of_char hi) rs)"

type_synonym mstate = "string \<times> (nat \<times> string) list"

definition match_one :: "bool \<Rightarrow> item \<Rightarrow> mstate \<Rightarrow> mstate list" where
  "match_one ic it st =
     (case fst st of
        [] \<Rightarrow> []
      | c # cs \<Rightarrow> if item_matches ic it c then [(cs, snd st)] else [])"

definition repeat_one :: "bool \<Rightarrow> nat \<Rightarrow> nat option \<Rightarrow> item \<Rightarrow> mstate \<Rightarrow> mstate list" where
  "repeat_one ic lo hi it st =
     (let n = length (takeWhile (item_matches ic it) (fst st));
          m = (case hi of None \<Rightarrow> n | Some h \<Rightarrow> min n h)
      in map (\<lambda>k. (drop k (fst st), snd st)) (rev [lo ..< Suc m]))"

primrec rmatch :: "bool \<Rightarrow> regex \<Rightarrow> mstate \<Rightarrow> mstate list" where
  "rmatch ic Eps st = [st]"
| "rmatch ic (One it) st = match_one ic it st"
| "rmatch ic (MaxRepeat lo hi it) st = repeat_one ic lo hi it st"
| "rmatch ic (Subpattern g r) st =
     map (\<lambda>(rest, caps). (rest, (g, take (length (fst st) - length rest) (fst st)) # caps))
       (rmatch ic r st)"
| "rmatch ic (Cat r1 r2) st = concat (map (rmatch ic r2) (rmatch ic r1 st))"
| "rmatch ic (Branch r1 r2) st = rmatch ic r1 st @ rmatch ic r2 st"

text \<open>
  \<open>pattern.search(s)\<close>: the first match at the leftmost position where there is one.
  The result is the match's groups; \<open>None\<close> is Python's \<open>None\<close>.  A match object is
  always true as a condition.
\<close>

fun search_from :: "bool \<Rightarrow> regex \<Rightarrow> string \<Rightarrow> (nat \<times> string) list option" where
  "search_from ic r s =
     (case rmatch ic r (s, []) of
        m # _ \<Rightarrow> Some (snd m)
      | [] \<Rightarrow> (case s of [] \<Rightarrow> None | _ # t \<Rightarrow> search_from ic r t))"

definition pattern_search :: "pattern \<Rightarrow> string \<Rightarrow> (nat \<times> string) list option" where
  "pattern_search p s = search_from (ignorecase p) (prog p) s"

text \<open>\<open>re.search(pat, s)\<close> of the module: compiles \<open>pat\<close> without flags, then searches.\<close>

definition re_search :: "string \<Rightarrow> string \<Rightarrow> re_error + (nat \<times> string) list option" where
  "re_search pat s =
     (case re_compile pat False of
        Inl e \<Rightarrow> Inl e
      | Inr p \<Rightarrow> Inr (pattern_search p s))"

text \<open>\<open>m.group(g)\<close>: the text of group \<open>g\<close>, \<open>None\<close> when the group took no part.\<close>

definition group :: "(nat \<times> string) list \<Rightarrow> nat \<Rightarrow> string option" where
  "group m g = map_of m g"

section \<open>The bridge object and its pattern catalog\<close>

text \<open>
  The two dictionaries of \<open>ADBBridge.__init__\<close>, as written in the source: rule name and
  pattern text, in the order of the dictionary display (which is the order in which
  \<open>items()\<close> iterates).  \<open>bs\<close> is the backslash.
\<close>

abbreviation (input) bs :: char where
  "bs \<equiv> CHR 0x5C"

definition error_pattern_sources :: "(string \<times> string) list" where
  "error_pattern_sources =
     [(''fatal_exception'', ''FATAL EXCEPTION: (.+)''),
      (''null_pointer'', ''java'' @ [bs] @ ''.lang'' @ [bs] @ ''.NullPointerException''),
      (''out_of_memory'', ''OutOfMemoryError''),
      (''permission_denied'', ''Permission denied''),
      (''network_error'', ''java'' @ [bs] @ ''.net'' @ [bs] @ ''.ConnectException''),
      (''storage_error'', ''java'' @ [bs] @ ''.io'' @ [bs] @ ''.FileNotFoundException''),
      (''crash_anr'', ''ANR in (.+)''),
      (''native_crash'', ''*** FATAL EXCEPTION IN SYSTEM PROCESS''),
      (''security_exception'', ''SecurityException''),
      (''illegal_state'', ''IllegalStateException''),
      (''runtime_exception'', ''RuntimeException'')]"

definition permission_pattern_sources :: "(string \<times> string) list" where
  "permission_pattern_sources =
     [(''camera'', ''camera|CAMERA''),
      (''location'', ''location|gps|GPS|ACCESS_FINE_LOCATION''),
      (''storage'', ''storage|external|READ_EXTERNAL_STORAGE|WRITE_EXTERNAL_STORAGE''),
      (''network'', ''network|internet|INTERNET|ACCESS_NETWORK_STATE''),
      (''phone_state'', ''phone_state|READ_PHONE_STATE''),
      (''contacts'', ''contacts|READ_CONTACTS|WRITE_CONTACTS''),
      (''sms'', ''sms|SEND_SMS|READ_SMS'')]"

text \<open>
  Evaluating a dictionary display compiles the patterns from first to last (every one
  with \<open>re.IGNORECASE\<close>); the first \<open>re.error\<close> ends the evaluation.
\<close>

fun compile_patterns :: "(string \<times> string) list \<Rightarrow> re_error + (string \<times> pattern) list" where
  "compile_patterns [] = Inr []"
| "compile_patterns ((name, pat) # rest) =
     (case re_compile pat True of
        Inl e \<Rightarrow> Inl e
      | Inr p \<Rightarrow>
          (case compile_patterns rest of
             Inl e \<Rightarrow> Inl e
           | Inr ps \<Rightarrow> Inr ((name, p) # ps)))"

datatype connection = WebSocket

datatype process = Popen string

text \<open>
  The fields of the object.  \<open>desktop_ws_uri\<close> is left out: it is the port printed after
  \<open>ws://localhost:\<close> and decides nothing below.
\<close>

record ADBBridge =
  desktop_ws_port :: int
  desktop_connection :: "connection option"
  is_monitoring :: bool
  device_id :: "string option"
  adb_process :: "process option"
  error_patterns :: "(string \<times> pattern) list"
  permission_patterns :: "(string \<times> pattern) list"

definition ADBBridge_init :: "int \<Rightarrow> re_error + ADBBridge" where
  "ADBBridge_init port =
     (case compile_patterns error_pattern_sources of
        Inl e \<Rightarrow> Inl e
      | Inr eps \<Rightarrow>
          (case compile_patterns permission_pattern_sources of
             Inl e \<Rightarrow> Inl e
           | Inr pps \<Rightarrow>
               Inr \<lparr>desktop_ws_port = port, desktop_connection = None, is_monitoring = False,
                    device_id = None, adb_process = None,
                    error_patterns = eps, permission_patterns = pps\<rparr>))"

text \<open>The order of the rules as the specification lists them.\<close>

definition spec_rule_order :: "string list" where
  "spec_rule_order =
     [''fatal_exception'', ''native_crash'', ''out_of_memory'', ''null_pointer'',
      ''permission_denied'', ''network_error'', ''storage_error'', ''crash_anr'',
      ''security_exception'', ''illegal_state'', ''runtime_exception'']"

section \<open>Classifying a log line\<close>

text \<open>
  The dictionary that \<open>parse_log_line\<close> returns.  The keys \<open>source\<close> and
  \<open>timestamp_sent\<close> are absent (\<open>None\<close>) until \<open>send_error_to_desktop\<close> adds them.
  The value of \<open>time.time()\<close> is only passed on, never computed with.
\<close>

type_synonym py_float = real

record event =
  ev_type :: string
  timestamp :: string
  ev_device_id :: "string option"
  error_type :: string
  permission_type :: "string option"
  package_name :: "string option"
  message :: string
  full_log_line :: string
  severity :: string
  source :: "string option"
  timestamp_sent :: "py_float option"

definition get_error_severity :: "string \<Rightarrow> string" where
  "get_error_severity et =
     (if et \<in> set [''fatal_exception'', ''native_crash'', ''out_of_memory''] then ''critical''
      else if et \<in> set [''permission_denied''] then ''high''
      else ''medium'')"

text \<open>
  The two \<open>for ... if pattern.search(message): ...; break\<close> loops: the name of the first
  rule, in the order of the list, whose pattern is found in the message.
\<close>

fun first_match :: "(string \<times> pattern) list \<Rightarrow> string \<Rightarrow> string option" where
  "first_match [] msg = None"
| "first_match ((name, p) # rest) msg =
     (if pattern_search p msg \<noteq> None then Some name else first_match rest msg)"

definition package_pattern :: string where
  "package_pattern = ''at ([a-zA-Z0-9_'' @ [bs] @ ''.]+)'' @ [bs] @ ''.''"

text \<open>
  The body of the \<open>try\<close> block.  \<open>parts\<close> has at least six elements here.  An empty rule
  name is false as a condition, like \<open>None\<close>.
\<close>

definition parse_log_line_try :: "ADBBridge \<Rightarrow> string \<Rightarrow> string list \<Rightarrow> re_error + event option" where
  "parse_log_line_try self line parts =
     (let ts = parts ! 0 @ [CHR 0x20] @ parts ! 1 @ [CHR 0x20] @ parts ! 2;
          msg = (if length parts > 5 then parts ! 5 else []);
          et = first_match (error_patterns self) msg;
          pt = (if et = Some ''permission_denied''
                then first_match (permission_patterns self) msg else None)
      in case re_search package_pattern msg of
           Inl e \<Rightarrow> Inl e
         | Inr package_match \<Rightarrow>
             (let pn = (case package_match of Some m \<Rightarrow> group m 1 | None \<Rightarrow> None)
              in case et of
                   None \<Rightarrow> Inr None
                 | Some name \<Rightarrow>
                     if name = [] then Inr None
                     else Inr (Some
                       \<lparr>ev_type = ''android_error'',
                        timestamp = ts,
                        ev_device_id = device_id self,
                        error_type = name,
                        permission_type = pt,
                        package_name = pn,
                        message = py_strip msg,
                        full_log_line = py_strip line,
                        severity = get_error_severity name,
                        source = None,
                        timestamp_sent = None\<rparr>)))"

text \<open>
  \<open>parse_log_line\<close>: \<open>Inr None\<close> is the return value \<open>None\<close>, \<open>Inl\<close> would be an
  exception leaving the method.  The handler \<open>except Exception\<close> turns an exception of
  the \<open>try\<close> block into \<open>None\<close> (after a debug log entry, which is not modelled).
\<close>

definition parse_log_line :: "ADBBridge \<Rightarrow> string \<Rightarrow> re_error + event option" where
  "parse_log_line self line =
     (if py_strip line = [] then Inr None
      else
        (let parts = py_split_max (CHR '' '') 5 line
         in if length parts < 6 then Inr None
            else
              (case parse_log_line_try self line parts of
                 Inl e \<Rightarrow> Inr None
               | Inr r \<Rightarrow> Inr r)))"

section \<open>The connection, the subprocess and the session\<close>

text \<open>
  What lies outside the program is a \<open>world\<close>: the outcomes of the calls the bridge
  makes (whether \<open>websockets.connect\<close> returns, whether the \<open>k\<close>-th \<open>send\<close> on the
  connection returns or raises, what \<open>adb devices\<close> prints, whether \<open>Popen\<close> starts the
  process, whether \<open>wait(timeout=5)\<close> returns in time, and for the \<open>k\<close>-th turn of the
  monitoring loop whether the process still runs and what \<open>readline\<close> gives), two
  counters, and the trace of what the bridge did, oldest first.
\<close>

datatype log_level = DEBUG | INFO | WARNING | ERROR

datatype ws_message =
    StatusMessage string string "string option" string
  | EventMessage event

datatype effect =
    Log log_level string
  | WsConnect
  | WsSend ws_message
  | WsClose
  | AdbDevices
  | ProcStart string
  | ProcTerminate
  | ProcWait
  | ProcKill

record world =
  connect_ok :: bool
  send_ok :: "nat \<Rightarrow> bool"
  close_ok :: bool
  adb_devices :: "(int \<times> string \<times> string) option"
  popen_ok :: bool
  wait_ok :: bool
  running :: "nat \<Rightarrow> bool"
  readline :: "nat \<Rightarrow> string option"
  time_time :: "nat \<Rightarrow> py_float"
  sends :: nat
  ticks :: nat
  trace :: "effect list"

definition emit :: "effect \<Rightarrow> world \<Rightarrow> world" where
  "emit e w = w\<lparr>trace := trace w @ [e]\<rparr>"

definition logger :: "log_level \<Rightarrow> string \<Rightarrow> world \<Rightarrow> world" where
  "logger lvl msg w = emit (Log lvl msg) w"

text \<open>\<open>connection.send(json.dumps(m))\<close>: the attempt is recorded; the result is whether it returned.\<close>

definition ws_send :: "ws_message \<Rightarrow> world \<Rightarrow> bool \<times> world" where
  "ws_send m w = (send_ok w (sends w), emit (WsSend m) (w\<lparr>sends := Suc (sends w)\<rparr>))"

text \<open>\<open>connect_to_desktop\<close> logs and raises again what it catches: the first component is whether it raised.\<close>

definition connect_to_desktop :: "ADBBridge \<Rightarrow> world \<Rightarrow> bool \<times> ADBBridge \<times> world" where
  "connect_to_desktop self w =
     (let w1 = emit WsConnect w
      in if \<not> connect_ok w
         then (True, self, logger ERROR ''Failed to connect to OraFlow Desktop'' w1)
         else
           (let self1 = self\<lparr>desktop_connection := Some WebSocket\<rparr>;
                w2 = logger INFO ''Connected to OraFlow Desktop'' w1;
                r = ws_send (StatusMessage ''adb_bridge_status'' ''connected'' None
                       ''ADB Bridge connected successfully'') w2
            in if fst r then (False, self1, snd r)
               else (True, self1, logger ERROR ''Failed to connect to OraFlow Desktop'' (snd r))))"

text \<open>The device lines of the output of \<open>adb devices\<close>, after the header line.\<close>

definition device_of_line :: "string \<Rightarrow> string list" where
  "device_of_line line =
     (if py_strip line \<noteq> [] then
        (let parts = py_split (CHR 0x09) line
         in if length parts \<ge> 2 \<and> parts ! 1 = ''device'' then [parts ! 0] else [])
      else [])"

definition get_connected_devices :: "world \<Rightarrow> string list \<times> world" where
  "get_connected_devices w =
     (let w1 = emit AdbDevices w
      in case adb_devices w of
           None \<Rightarrow> ([], logger ERROR ''Error getting connected devices'' w1)
         | Some (returncode, out, err) \<Rightarrow>
             if returncode = 0
             then (concat (map device_of_line (drop 1 (py_split (CHR 0x0A) (py_strip out)))), w1)
             else ([], logger ERROR ''ADB devices command failed'' w1))"

definition select_device :: "world \<Rightarrow> string option \<times> world" where
  "select_device w =
     (let r = get_connected_devices w; devices = fst r
      in if devices = [] then (None, logger WARNING ''No Android devices connected'' (snd r))
         else if length devices = 1
         then (Some (devices ! 0), logger INFO ''Auto-selected device'' (snd r))
         else (Some (devices ! 0),
               logger INFO ''Using first device'' (logger INFO ''Multiple devices found'' (snd r))))"

definition start_adb_logcat :: "ADBBridge \<Rightarrow> string \<Rightarrow> world \<Rightarrow> process option \<times> ADBBridge \<times> world" where
  "start_adb_logcat self dev w =
     (let w1 = logger INFO ''Command: adb -s <device> logcat *:E -v threadtime''
                 (logger INFO ''Starting ADB logcat for device'' w)
      in if popen_ok w
         then (Some (Popen dev), self\<lparr>adb_process := Some (Popen dev)\<rparr>, emit (ProcStart dev) w1)
         else (None, self, logger ERROR ''Failed to start ADB logcat'' w1))"

definition stop_adb_logcat :: "ADBBridge \<Rightarrow> world \<Rightarrow> ADBBridge \<times> world" where
  "stop_adb_logcat self w =
     (case adb_process self of
        None \<Rightarrow> (self, w)
      | Some p \<Rightarrow>
          (let w1 = emit ProcWait (emit ProcTerminate w)
           in if wait_ok w
              then (self\<lparr>adb_process := None\<rparr>, logger INFO ''ADB logcat process stopped'' w1)
              else (self\<lparr>adb_process := None\<rparr>,
                    logger WARNING ''ADB logcat process killed'' (emit ProcKill w1))))"

text \<open>
  \<open>send_error_to_desktop\<close> changes the dictionary it is given, so the dictionary is part of
  the result.  Nothing in it assigns \<open>desktop_connection\<close>.
\<close>

definition send_error_to_desktop :: "ADBBridge \<Rightarrow> event \<Rightarrow> world \<Rightarrow> ADBBridge \<times> event \<times> world" where
  "send_error_to_desktop self error_data w =
     (case desktop_connection self of
        None \<Rightarrow> (self, error_data, logger WARNING ''No connection to desktop, cannot send error'' w)
      | Some c \<Rightarrow>
          (let d = error_data\<lparr>source := Some ''adb_bridge'',
                              timestamp_sent := Some (time_time w (sends w))\<rparr>;
               r = ws_send (EventMessage d) w
           in if fst r then (self, d, logger INFO ''Sent Android error to desktop'' (snd r))
              else (self, d, logger ERROR ''Failed to send error to desktop'' (snd r))))"

text \<open>
  The \<open>while\<close> loop of \<open>monitor_adb_logcat\<close>.  It runs as long as the process does, so it
  need not end: the result \<open>None\<close> is a loop that runs forever.  The first component of a
  result is whether the loop was left by an exception.
\<close>

partial_function (option) monitor_loop :: "ADBBridge \<Rightarrow> world \<Rightarrow> (bool \<times> ADBBridge \<times> world) option" where
  "monitor_loop self w =
     (if is_monitoring self \<and> running w (ticks w) then
        (case readline w (ticks w) of
           None \<Rightarrow> Some (True, self, w\<lparr>ticks := Suc (ticks w)\<rparr>)
         | Some line \<Rightarrow>
             if line = [] then monitor_loop self (w\<lparr>ticks := Suc (ticks w)\<rparr>)
             else
               (case parse_log_line self line of
                  Inl e \<Rightarrow> Some (True, self, w\<lparr>ticks := Suc (ticks w)\<rparr>)
                | Inr None \<Rightarrow> monitor_loop self (w\<lparr>ticks := Suc (ticks w)\<rparr>)
                | Inr (Some error_data) \<Rightarrow>
                    monitor_loop
                      (fst (send_error_to_desktop self error_data
                         (logger INFO ''Detected Android error'' (w\<lparr>ticks := Suc (ticks w)\<rparr>))))
                      (snd (snd (send_error_to_desktop self error_data
                         (logger INFO ''Detected Android error'' (w\<lparr>ticks := Suc (ticks w)\<rparr>)))))))
      else Some (False, self, w))"

declare monitor_loop.simps [code]

definition monitor_adb_logcat :: "ADBBridge \<Rightarrow> world \<Rightarrow> (ADBBridge \<times> world) option" where
  "monitor_adb_logcat self w =
     (case adb_process self of
        None \<Rightarrow> Some (self, logger ERROR ''ADB process not started'' w)
      | Some p \<Rightarrow>
          (case monitor_loop self (logger INFO ''Starting ADB logcat monitoring...'' w) of
             None \<Rightarrow> None
           | Some (raised, self1, w1) \<Rightarrow>
               Some (stop_adb_logcat self1
                 (if raised then logger ERROR ''Error in ADB monitoring loop'' w1 else w1))))"

definition stop_monitoring :: "ADBBridge \<Rightarrow> world \<Rightarrow> ADBBridge \<times> world" where
  "stop_monitoring self w =
     (if \<not> is_monitoring self then (self, w)
      else
        (let r = stop_adb_logcat (self\<lparr>is_monitoring := False\<rparr>) w;
             self1 = fst r;
             w1 = snd r;
             w2 = (case desktop_connection self1 of
                     None \<Rightarrow> w1
                   | Some c \<Rightarrow>
                       (let s = ws_send (StatusMessage ''adb_monitoring_status'' ''stopped'' None
                                  ''ADB Bridge monitoring stopped'') w1
                        in if fst s then snd s
                           else logger ERROR ''Failed to send stop status'' (snd s)));
             w3 = (case desktop_connection self1 of
                     None \<Rightarrow> w2
                   | Some c \<Rightarrow>
                       if close_ok w
                       then logger INFO ''ADB Bridge stopped and disconnected from desktop''
                              (emit WsClose w2)
                       else logger ERROR ''Error closing desktop connection'' (emit WsClose w2))
         in (self1, w3)))"

text \<open>
  \<open>start_monitoring\<close>.  A device identifier that is \<open>None\<close> or empty is false as a
  condition.  The two \<open>return\<close> statements after the connection is made leave the method
  at once; the handler of the \<open>try\<close> block calls \<open>stop_monitoring\<close>.
\<close>

definition start_monitoring :: "ADBBridge \<Rightarrow> world \<Rightarrow> (ADBBridge \<times> world) option" where
  "start_monitoring self w =
     (if is_monitoring self then Some (self, logger WARNING ''ADB Bridge is already monitoring'' w)
      else
        (case connect_to_desktop self w of
           (True, self1, w1) \<Rightarrow>
             Some (stop_monitoring self1 (logger ERROR ''Failed to start ADB Bridge'' w1))
         | (False, self1, w1) \<Rightarrow>
             (case select_device w1 of
                (dev, w2) \<Rightarrow>
                  (let self2 = self1\<lparr>device_id := dev\<rparr>
                   in if dev = None \<or> dev = Some []
                      then Some (self2, logger ERROR ''No Android device available for monitoring'' w2)
                      else
                        (case start_adb_logcat self2 (the dev) w2 of
                           (None, self3, w3) \<Rightarrow>
                             Some (self3, logger ERROR ''Failed to start ADB logcat'' w3)
                         | (Some p, self3, w3) \<Rightarrow>
                             (let self4 = self3\<lparr>is_monitoring := True\<rparr>;
                                  s = ws_send (StatusMessage ''adb_monitoring_status'' ''active''
                                         (device_id self4) ''Monitoring Android device'') w3
                              in if fst s
                                 then monitor_adb_logcat self4 (logger INFO ''ADB Bridge started'' (snd s))
                                 else Some (stop_monitoring self4
                                        (logger ERROR ''Failed to start ADB Bridge'' (snd s)))))))))"

text \<open>
  \<open>run\<close>, with no interrupt from the operator: after \<open>start_monitoring\<close> it waits while
  \<open>is_monitoring\<close> holds, which nothing else changes, and then calls \<open>stop_monitoring\<close>.
\<close>

definition run :: "ADBBridge \<Rightarrow> world \<Rightarrow> (ADBBridge \<times> world) option" where
  "run self w =
     (case start_monitoring self (logger INFO ''Starting MCP ADB Bridge...'' w) of
        None \<Rightarrow> None
      | Some (self1, w1) \<Rightarrow> if is_monitoring self1 then None else Some (stop_monitoring self1 w1))"

section \<open>Notions used in the statements\<close>

text \<open>
  The expression that the parser gives for a pattern starting with the literal text \<open>w\<close>
  and continuing as \<open>r\<close>.
\<close>

definition lits :: "string \<Rightarrow> regex \<Rightarrow> regex" where
  "lits w r = foldr (\<lambda>c. Cat (One (Literal c))) w r"

text \<open>
  \<open>first_rules n self\<close>: the first \<open>n\<close> rules of the object's error rule list are the
  first \<open>n\<close> entries of the source's table, compiled.
\<close>

definition first_rules :: "nat \<Rightarrow> ADBBridge \<Rightarrow> bool" where
  "first_rules n self =
     (compile_patterns (take n error_pattern_sources) = Inr (take n (error_patterns self)))"


text \<open>
  The number of whitespace-separated fields of a line, as the specification counts them:
  the maximal runs of characters that are not whitespace.  The flag says whether the
  character before was part of a field.
\<close>

primrec field_count :: "bool \<Rightarrow> string \<Rightarrow> nat" where
  "field_count infield [] = 0"
| "field_count infield (c # cs) =
     (if py_isspace c then field_count False cs
      else (if infield then 0 else 1) + field_count True cs)"


text \<open>
  The calls of \<open>send_error_to_desktop\<close> that the monitoring loop makes for the events of
  successive lines, and the number of times the trace shows a \<open>send\<close> on the connection.
\<close>

fun send_all :: "ADBBridge \<Rightarrow> event list \<Rightarrow> world \<Rightarrow> ADBBridge \<times> world" where
  "send_all self [] w = (self, w)"
| "send_all self (ev # evs) w =
     send_all (fst (send_error_to_desktop self ev w)) evs
       (snd (snd (send_error_to_desktop self ev w)))"

definition ws_attempts :: "effect list \<Rightarrow> nat" where
  "ws_attempts tr = length (filter (\<lambda>e. case e of WsSend m \<Rightarrow> True | _ \<Rightarrow> False) tr)"

text \<open>The warnings of a trace, and an event with the two keys that sending adds.\<close>

definition warnings :: "effect list \<Rightarrow> effect list" where
  "warnings tr = filter (\<lambda>e. case e of Log lvl msg \<Rightarrow> lvl = WARNING | _ \<Rightarrow> False) tr"

definition stamped :: "event \<Rightarrow> world \<Rightarrow> event" where
  "stamped ev w =
     ev\<lparr>source := Some ''adb_bridge'', timestamp_sent := Some (time_time w (sends w))\<rparr>"

text \<open>
  The objects of the closed examples.  \<open>sample_bridge\<close> has the fields as \<open>__init__\<close>
  assigns them, its error rules being the entries of the table other than
  \<open>native_crash\<close>; \<open>connected_bridge\<close> holds a connection; \<open>monitoring_bridge\<close> is in a
  session.  In \<open>sample_world\<close> every call succeeds, \<open>adb devices\<close> prints its header line
  only, and the process has ended; in \<open>failing_world\<close> every \<open>send\<close> raises; in
  \<open>device_world\<close> one device is attached; in \<open>line_world\<close> the process runs for one
  turn of the loop and prints the line of the specification's scenario.
\<close>

definition sample_bridge :: ADBBridge where
  "sample_bridge =
     \<lparr>desktop_ws_port = 6544, desktop_connection = None, is_monitoring = False,
      device_id = None, adb_process = None,
      error_patterns =
        (case compile_patterns
                (filter (\<lambda>rule. fst rule \<noteq> ''native_crash'') error_pattern_sources) of
           Inr ps \<Rightarrow> ps
         | Inl e \<Rightarrow> []),
      permission_patterns =
        (case compile_patterns permission_pattern_sources of Inr ps \<Rightarrow> ps | Inl e \<Rightarrow> [])\<rparr>"

definition connected_bridge :: ADBBridge where
  "connected_bridge = sample_bridge\<lparr>desktop_connection := Some WebSocket\<rparr>"

definition monitoring_bridge :: ADBBridge where
  "monitoring_bridge =
     sample_bridge\<lparr>desktop_connection := Some WebSocket, is_monitoring := True,
       device_id := Some ''emulator-5554'', adb_process := Some (Popen ''emulator-5554'')\<rparr>"

definition sample_world :: world where
  "sample_world =
     \<lparr>connect_ok = True, send_ok = (\<lambda>k. True), close_ok = True,
      adb_devices = Some (0, ''List of devices attached'' @ [CHR 0x0A], []),
      popen_ok = True, wait_ok = True, running = (\<lambda>k. False), readline = (\<lambda>k. Some []),
      time_time = (\<lambda>k. 0), sends = 0, ticks = 0, trace = []\<rparr>"

definition failing_world :: world where
  "failing_world = sample_world\<lparr>send_ok := (\<lambda>k. False)\<rparr>"

definition device_world :: world where
  "device_world =
     sample_world\<lparr>adb_devices :=
       Some (0, ''List of devices attached'' @ [CHR 0x0A] @ ''emulator-5554'' @ [CHR 0x09] @
                ''device'' @ [CHR 0x0A], [])\<rparr>"

definition line_world :: world where
  "line_world =
     sample_world\<lparr>running := (\<lambda>k. k = 0),
       readline := (\<lambda>k. Some
         (''01-01 00:00:00.000 1-1/1 E AndroidRuntime: FATAL EXCEPTION: main'' @ [CHR 0x0A]))\<rparr>"

definition sample_event :: event where
  "sample_event =
     \<lparr>ev_type = ''android_error'',
      timestamp = ''01-01 00:00:00.000 1-1/1'',
      ev_device_id = None,
      error_type = ''fatal_exception'',
      permission_type = None,
      package_name = None,
      message = ''FATAL EXCEPTION: main'',
      full_log_line = ''01-01 00:00:00.000 1-1/1 E AndroidRuntime: FATAL EXCEPTION: main'',
      severity = ''critical'',
      source = None,
      timestamp_sent = None\<rparr>"

section \<open>Auxiliary facts\<close>

declare search_from.simps [simp del]

lemma item_matches_Literal_self: "item_matches ic (Literal c) c"
  by (simp add: item_matches_def)

lemma rmatch_lits: "rmatch ic (lits w r) (w @ t, caps) = rmatch ic r (t, caps)"
  by (induction w) (simp_all add: lits_def match_one_def item_matches_Literal_self)


lemma search_from_found:
  "rmatch ic r (t, []) \<noteq> [] \<Longrightarrow> search_from ic r (pre @ t) \<noteq> None"
proof (induction pre)
  case Nil
  then show ?case
    by (subst search_from.simps) (simp split: list.splits)
next
  case (Cons a pre)
  then show ?case
    by (subst search_from.simps) (simp split: list.splits)
qed

lemma compile_patterns_names:
  "compile_patterns tbl = Inr ps \<Longrightarrow> map fst ps = map fst tbl"
  by (induction tbl arbitrary: ps) (auto split: sum.splits)

lemma length_py_split_max:
  "length (py_split_max sep n s) = Suc (min n (count_list s sep))"
  by (induction sep n s rule: py_split_max.induct) (auto split: list.splits)

lemma py_split_max_chars:
  "p \<in> set (py_split_max sep n s) \<Longrightarrow> c \<in> set p \<Longrightarrow> c \<in> set s"
proof (induction sep n s arbitrary: p rule: py_split_max.induct)
  case (1 sep n)
  then show ?case by simp
next
  case (2 sep c cs)
  then show ?case by simp
next
  case (3 sep n a cs)
  show ?case
  proof (cases "a = sep")
    case True
    with 3 show ?thesis by auto
  next
    case False
    show ?thesis
    proof (cases "py_split_max sep (Suc n) cs")
      case Nil
      with 3 False show ?thesis by auto
    next
      case (Cons q qs)
      with 3(3) False have "p = a # q \<or> p \<in> set qs" by simp
      then show ?thesis
      proof
        assume "p = a # q"
        with 3(4) have "c = a \<or> c \<in> set q" by auto
        then show ?thesis
          using 3(2) [OF False, of q] Cons by auto
      next
        assume "p \<in> set qs"
        then show ?thesis
          using 3(2) [OF False, of p] 3(4) Cons by auto
      qed
    qed
  qed
qed

lemma in_set_dropWhile: "x \<in> set xs \<Longrightarrow> \<not> P x \<Longrightarrow> x \<in> set (dropWhile P xs)"
  by (induction xs) auto

lemma py_strip_nonempty:
  assumes "c \<in> set s" and "\<not> py_isspace c"
  shows "py_strip s \<noteq> []"
proof -
  have "c \<in> set (rev (dropWhile py_isspace s))"
    using assms by (simp add: in_set_dropWhile)
  then have "c \<in> set (dropWhile py_isspace (rev (dropWhile py_isspace s)))"
    using assms(2) by (rule in_set_dropWhile)
  then have "dropWhile py_isspace (rev (dropWhile py_isspace s)) \<noteq> []"
    by (metis empty_iff empty_set)
  then show ?thesis
    unfolding py_strip_def by (simp del: dropWhile_eq_Nil_conv)
qed

lemma package_pattern_compiles_aux:
  "(case re_compile package_pattern False of Inr p \<Rightarrow> True | Inl e \<Rightarrow> False)"
  by code_simp

lemma package_pattern_compiles:
  "\<exists>p. re_compile package_pattern False = Inr p"
  using package_pattern_compiles_aux by (cases "re_compile package_pattern False") auto

lemma fatal_compiles:
  "compile_patterns (take 1 error_pattern_sources) =
     Inr [(''fatal_exception'',
           \<lparr>ignorecase = True,
            prog = lits ''FATAL EXCEPTION: '' (Subpattern 1 (MaxRepeat 1 None AnyChar))\<rparr>)]"
  by code_simp

lemma repeat_any_nonempty:
  "c \<noteq> CHR 0x0A \<Longrightarrow> repeat_one ic (Suc 0) None AnyChar (c # t, caps) \<noteq> []"
  by (simp add: repeat_one_def item_matches_def Let_def)

lemma fatal_found:
  "pattern_search \<lparr>ignorecase = True,
            prog = lits ''FATAL EXCEPTION: '' (Subpattern 1 (MaxRepeat 1 None AnyChar))\<rparr>
     (pre @ ''FATAL EXCEPTION: foo'' @ post) \<noteq> None"
proof -
  have "rmatch True (lits ''FATAL EXCEPTION: '' (Subpattern 1 (MaxRepeat 1 None AnyChar)))
          (''FATAL EXCEPTION: '' @ (''foo'' @ post), []) \<noteq> []"
    unfolding rmatch_lits using repeat_any_nonempty [of "CHR ''f''" True "''oo'' @ post" "[]"]
    by simp
  then show ?thesis
    unfolding pattern_search_def by (simp add: search_from_found)
qed

lemma first_rules_1:
  assumes "first_rules 1 self"
  shows "\<exists>rest. error_patterns self =
     (''fatal_exception'',
      \<lparr>ignorecase = True,
       prog = lits ''FATAL EXCEPTION: '' (Subpattern 1 (MaxRepeat 1 None AnyChar))\<rparr>) # rest"
proof -
  from assms have "take 1 (error_patterns self) =
     [(''fatal_exception'',
       \<lparr>ignorecase = True,
        prog = lits ''FATAL EXCEPTION: '' (Subpattern 1 (MaxRepeat 1 None AnyChar))\<rparr>)]"
    unfolding first_rules_def fatal_compiles by simp
  then show ?thesis
    by (cases "error_patterns self") auto
qed

lemma first_match_fatal:
  assumes "first_rules 1 self"
  shows "first_match (error_patterns self) (pre @ ''FATAL EXCEPTION: foo'' @ post) =
     Some ''fatal_exception''"
proof -
  from first_rules_1 [OF assms] obtain rest where
    "error_patterns self =
     (''fatal_exception'',
      \<lparr>ignorecase = True,
       prog = lits ''FATAL EXCEPTION: '' (Subpattern 1 (MaxRepeat 1 None AnyChar))\<rparr>) # rest"
    by blast
  then show ?thesis
    using fatal_found [of pre post] by simp
qed

text \<open>
  A line that splits into six fields, with a visible character in the sixth and a rule
  that is found in it, gives an event of that rule.
\<close>

lemma parse_log_line_six:
  assumes "py_split_max (CHR 0x20) 5 line = [p0, p1, p2, p3, p4, body]"
    and "c \<in> set body" and "\<not> py_isspace c"
    and "first_match (error_patterns self) body = Some name" and "name \<noteq> []"
  shows "\<exists>ev. parse_log_line self line = Inr (Some ev) \<and> error_type ev = name \<and>
     severity ev = get_error_severity name \<and>
     permission_type ev = (if name = ''permission_denied''
        then first_match (permission_patterns self) body else None)"
proof -
  have "c \<in> set line"
    using py_split_max_chars [of body "CHR 0x20" 5 line c] assms(1,2) by simp
  then have strip: "py_strip line \<noteq> []"
    using assms(3) by (rule py_strip_nonempty)
  obtain p where p: "re_compile package_pattern False = Inr p"
    using package_pattern_compiles by blast
  show ?thesis
    using strip assms(1,4,5) p
    by (simp add: parse_log_line_def parse_log_line_try_def re_search_def Let_def)
qed

section \<open>The pattern catalog (C1)\<close>

text \<open>
  C1, as stated, fails.  Constructing the object raises \<open>re.error\<close>, nothing to repeat at
  position 0: the pattern of \<open>native_crash\<close> starts with the repeat operator \<open>*\<close>.  And
  the order of the rules in the source's table is not the order of the specification.
\<close>

theorem ADBBridge_init_counterexample:
  "ADBBridge_init 6544 = Inl (NothingToRepeat 0) \<and>
   map fst error_pattern_sources \<noteq> spec_rule_order"
  by code_simp

text \<open>
  C1, amended: the table of error rules that \<open>ADBBridge.__init__\<close> writes holds exactly
  the eleven rules the specification names, each once, in the order \<open>fatal_exception\<close>,
  \<open>null_pointer\<close>, \<open>out_of_memory\<close>, \<open>permission_denied\<close>, \<open>network_error\<close>,
  \<open>storage_error\<close>, \<open>crash_anr\<close>, \<open>native_crash\<close>, \<open>security_exception\<close>,
  \<open>illegal_state\<close>, \<open>runtime_exception\<close>; and the rules compiled from any initial part
  of the table stand in the rule list under their names in that order.
\<close>

theorem error_rule_order:
  "map fst error_pattern_sources =
     [''fatal_exception'', ''null_pointer'', ''out_of_memory'', ''permission_denied'',
      ''network_error'', ''storage_error'', ''crash_anr'', ''native_crash'',
      ''security_exception'', ''illegal_state'', ''runtime_exception''] \<and>
   distinct (map fst error_pattern_sources) \<and>
   set (map fst error_pattern_sources) = set spec_rule_order \<and>
   (\<forall>n ps. compile_patterns (take n error_pattern_sources) = Inr ps \<longrightarrow>
      map fst ps = take n (map fst error_pattern_sources))"
proof -
  have a: "map fst error_pattern_sources =
     [''fatal_exception'', ''null_pointer'', ''out_of_memory'', ''permission_denied'',
      ''network_error'', ''storage_error'', ''crash_anr'', ''native_crash'',
      ''security_exception'', ''illegal_state'', ''runtime_exception'']"
    by (simp add: error_pattern_sources_def)
  have b: "distinct (map fst error_pattern_sources)"
    unfolding a by simp
  have c: "set (map fst error_pattern_sources) = set spec_rule_order"
    unfolding a spec_rule_order_def by auto
  have d: "map fst ps = take n (map fst error_pattern_sources)"
    if "compile_patterns (take n error_pattern_sources) = Inr ps" for n ps
    using compile_patterns_names [OF that] by (simp add: take_map)
  from a b c d show ?thesis
    by blast
qed

theorem error_rule_order_witness:
  "compile_patterns (take 7 error_pattern_sources) = Inr (take 7 (error_patterns sample_bridge)) \<and>
   map fst (take 7 (error_patterns sample_bridge)) =
     [''fatal_exception'', ''null_pointer'', ''out_of_memory'', ''permission_denied'',
      ''network_error'', ''storage_error'', ''crash_anr'']"
proof -
  have a: "compile_patterns (take 7 error_pattern_sources) = Inr (take 7 (error_patterns sample_bridge))"
    by code_simp
  have "map fst (take 7 (error_patterns sample_bridge)) = take 7 (map fst error_pattern_sources)"
    using error_rule_order a by blast
  also have "\<dots> = [''fatal_exception'', ''null_pointer'', ''out_of_memory'',
      ''permission_denied'', ''network_error'', ''storage_error'', ''crash_anr'']"
    by (simp add: error_pattern_sources_def)
  finally show ?thesis
    using a by simp
qed

section \<open>Classification (C2, C3, C10)\<close>

text \<open>
  C2, as stated, fails: a line that holds the text but has fewer than six fields, or that
  holds it before the sixth field, gives nothing.
\<close>

theorem parse_log_line_fatal_exception_counterexample:
  "parse_log_line sample_bridge ''FATAL EXCEPTION: foo'' = Inr None \<and>
   parse_log_line sample_bridge ''FATAL EXCEPTION: foo a b c d'' = Inr None"
  by code_simp

text \<open>
  C2, amended: for an object whose first error rule is the table's \<open>fatal_exception\<close>,
  every line that \<open>split(' ', 5)\<close> cuts into six fields and whose sixth field, the message
  body, contains the text \<open>FATAL EXCEPTION: foo\<close> gives an event with \<open>error_type\<close>
  \<open>fatal_exception\<close> and \<open>severity\<close> \<open>critical\<close>.
\<close>

theorem parse_log_line_fatal_exception:
  assumes "first_rules 1 self"
    and "py_split_max (CHR 0x20) 5 line =
           [p0, p1, p2, p3, p4, pre @ ''FATAL EXCEPTION: foo'' @ post]"
  shows "\<exists>ev. parse_log_line self line = Inr (Some ev) \<and>
     error_type ev = ''fatal_exception'' \<and> severity ev = ''critical''"
proof -
  have "\<not> py_isspace (CHR ''F'')"
    by (simp add: py_isspace_def)
  moreover have "CHR ''F'' \<in> set (pre @ ''FATAL EXCEPTION: foo'' @ post)"
    by simp
  ultimately obtain ev where "parse_log_line self line = Inr (Some ev)"
    "error_type ev = ''fatal_exception''" "severity ev = get_error_severity ''fatal_exception''"
    using parse_log_line_six [OF assms(2) _ _ first_match_fatal [OF assms(1)]] by blast
  then show ?thesis
    by (auto simp: get_error_severity_def)
qed

theorem parse_log_line_fatal_exception_witness:
  "first_rules 1 sample_bridge \<and>
   py_split_max (CHR 0x20) 5
     ''01-01 00:00:00.000 1234 5678 E AndroidRuntime: FATAL EXCEPTION: foo (main)'' =
     [''01-01'', ''00:00:00.000'', ''1234'', ''5678'', ''E'',
      ''AndroidRuntime: '' @ ''FATAL EXCEPTION: foo'' @ '' (main)''] \<and>
   (\<exists>ev. parse_log_line sample_bridge
       ''01-01 00:00:00.000 1234 5678 E AndroidRuntime: FATAL EXCEPTION: foo (main)'' =
         Inr (Some ev) \<and>
       error_type ev = ''fatal_exception'' \<and> severity ev = ''critical'')"
proof -
  have a: "first_rules 1 sample_bridge"
    unfolding first_rules_def by code_simp
  have b: "py_split_max (CHR 0x20) 5
     ''01-01 00:00:00.000 1234 5678 E AndroidRuntime: FATAL EXCEPTION: foo (main)'' =
     [''01-01'', ''00:00:00.000'', ''1234'', ''5678'', ''E'',
      ''AndroidRuntime: '' @ ''FATAL EXCEPTION: foo'' @ '' (main)'']"
    by code_simp
  show ?thesis
    using a b parse_log_line_fatal_exception [OF a b] by blast
qed

text \<open>
  C3, as stated, fails: \<open>split(' ', 5)\<close> cuts at every single space, so a line of three
  whitespace-separated fields after five spaces has six parts and is classified.
\<close>

theorem parse_log_line_short_counterexample:
  "field_count False ''     FATAL EXCEPTION: foo'' = 3 \<and>
   parse_log_line sample_bridge ''     FATAL EXCEPTION: foo'' =
     Inr (Some \<lparr>ev_type = ''android_error'',
      timestamp = ''  '',
      ev_device_id = None,
      error_type = ''fatal_exception'',
      permission_type = None,
      package_name = None,
      message = ''FATAL EXCEPTION: foo'',
      full_log_line = ''FATAL EXCEPTION: foo'',
      severity = ''critical'',
      source = None,
      timestamp_sent = None\<rparr>)"
  by code_simp

text \<open>
  C3, amended: for every line that is empty, whitespace-only, or holds fewer than five
  space characters (so that \<open>split(' ', 5)\<close> gives fewer than six parts),
  \<open>parse_log_line\<close> returns nothing.
\<close>

theorem parse_log_line_short:
  assumes "py_strip line = [] \<or> count_list line (CHR 0x20) < 5"
  shows "parse_log_line self line = Inr None"
  using assms by (auto simp: parse_log_line_def Let_def length_py_split_max)

theorem parse_log_line_short_witness:
  "py_strip [] = [] \<and> parse_log_line sample_bridge [] = Inr None \<and>
   py_strip [CHR 0x20, CHR 0x09, CHR 0x0A] = [] \<and>
   parse_log_line sample_bridge [CHR 0x20, CHR 0x09, CHR 0x0A] = Inr None \<and>
   count_list ''E AndroidRuntime: FATAL EXCEPTION: foo'' (CHR 0x20) < 5 \<and>
   parse_log_line sample_bridge ''E AndroidRuntime: FATAL EXCEPTION: foo'' = Inr None"
proof -
  have a: "py_strip [] = []"
    by code_simp
  have b: "py_strip [CHR 0x20, CHR 0x09, CHR 0x0A] = []"
    by code_simp
  have c: "count_list ''E AndroidRuntime: FATAL EXCEPTION: foo'' (CHR 0x20) < 5"
    by code_simp
  have d: "parse_log_line sample_bridge [] = Inr None"
    by (rule parse_log_line_short, rule disjI1, rule a)
  have e: "parse_log_line sample_bridge [CHR 0x20, CHR 0x09, CHR 0x0A] = Inr None"
    by (rule parse_log_line_short, rule disjI1, rule b)
  have f: "parse_log_line sample_bridge ''E AndroidRuntime: FATAL EXCEPTION: foo'' = Inr None"
    by (rule parse_log_line_short, rule disjI2, rule c)
  from a b c d e f show ?thesis
    by (intro conjI)
qed










section \<open>Rule priority (C4)\<close>



section \<open>Permission sub-rules (C5)\<close>










section \<open>Sending events (C6, C9)\<close>

lemma send_error_connected:
  assumes "desktop_connection self = Some c"
  shows "fst (send_error_to_desktop self ev w) = self"
    and "fst (snd (send_error_to_desktop self ev w)) = stamped ev w"
    and "trace (snd (snd (send_error_to_desktop self ev w))) =
           trace w @ [WsSend (EventMessage (stamped ev w)),
                      if send_ok w (sends w) then Log INFO ''Sent Android error to desktop''
                      else Log ERROR ''Failed to send error to desktop'']"
  using assms
  by (simp_all add: send_error_to_desktop_def stamped_def ws_send_def emit_def logger_def Let_def)

lemma send_all_connected:
  assumes "desktop_connection self = Some c"
  shows "fst (send_all self evs w) = self \<and>
         ws_attempts (trace (snd (send_all self evs w))) = ws_attempts (trace w) + length evs \<and>
         warnings (trace (snd (send_all self evs w))) = warnings (trace w)"
proof (induction evs arbitrary: w)
  case Nil
  then show ?case by simp
next
  case (Cons ev evs)
  have "fst (send_error_to_desktop self ev w) = self"
    using assms by (rule send_error_connected(1))
  moreover have "ws_attempts (trace (snd (snd (send_error_to_desktop self ev w)))) =
      Suc (ws_attempts (trace w))"
    unfolding send_error_connected(3) [OF assms] by (simp add: ws_attempts_def)
  moreover have "warnings (trace (snd (snd (send_error_to_desktop self ev w)))) =
      warnings (trace w)"
    unfolding send_error_connected(3) [OF assms] by (simp add: warnings_def)
  ultimately show ?case
    using Cons.IH [of "snd (snd (send_error_to_desktop self ev w))"] by simp
qed

text \<open>
  C6, amended: when a send over a held connection fails, the failure is logged as an
  error and the connection handle stays as it was: the channel does not become
  disconnected, and every later event is again stamped and attempted over the transport,
  none being dropped with a warning.
\<close>

theorem send_failure_keeps_connection:
  assumes "desktop_connection self = Some c" and "\<not> send_ok w (sends w)"
  shows "fst (send_error_to_desktop self ev w) = self \<and>
         trace (snd (snd (send_error_to_desktop self ev w))) =
           trace w @ [WsSend (EventMessage (stamped ev w)),
                      Log ERROR ''Failed to send error to desktop''] \<and>
         desktop_connection (fst (send_all self (ev # evs) w)) = Some c \<and>
         ws_attempts (trace (snd (send_all self (ev # evs) w))) =
           ws_attempts (trace w) + Suc (length evs) \<and>
         warnings (trace (snd (send_all self (ev # evs) w))) = warnings (trace w)"
proof -
  have "trace (snd (snd (send_error_to_desktop self ev w))) =
           trace w @ [WsSend (EventMessage (stamped ev w)),
                      Log ERROR ''Failed to send error to desktop'']"
    unfolding send_error_connected(3) [OF assms(1)] using assms(2) by simp
  moreover note send_error_connected(1) [OF assms(1), of ev w]
  moreover note send_all_connected [OF assms(1), of "ev # evs" w]
  ultimately show ?thesis
    using assms(1) by simp
qed

theorem send_failure_keeps_connection_witness:
  "desktop_connection connected_bridge = Some WebSocket \<and>
   \<not> send_ok failing_world (sends failing_world) \<and>
   fst (send_error_to_desktop connected_bridge sample_event failing_world) = connected_bridge \<and>
   trace (snd (snd (send_error_to_desktop connected_bridge sample_event failing_world))) =
     trace failing_world @ [WsSend (EventMessage (stamped sample_event failing_world)),
       Log ERROR ''Failed to send error to desktop''] \<and>
   desktop_connection (fst (send_all connected_bridge
       (sample_event # [sample_event, sample_event, sample_event]) failing_world)) = Some WebSocket \<and>
   ws_attempts (trace (snd (send_all connected_bridge
       (sample_event # [sample_event, sample_event, sample_event]) failing_world))) =
     ws_attempts (trace failing_world) + Suc (length [sample_event, sample_event, sample_event]) \<and>
   warnings (trace (snd (send_all connected_bridge
       (sample_event # [sample_event, sample_event, sample_event]) failing_world))) =
     warnings (trace failing_world)"
proof -
  have a: "desktop_connection connected_bridge = Some WebSocket"
    by (simp add: connected_bridge_def)
  have b: "\<not> send_ok failing_world (sends failing_world)"
    by (simp add: failing_world_def)
  from a b send_failure_keeps_connection [OF a b, of sample_event
      "[sample_event, sample_event, sample_event]"]
  show ?thesis
    by (intro conjI) (elim conjE, assumption)+
qed

text \<open>
  C6, as stated, fails: after a failed send the object still holds its connection, and the
  next three events are each attempted over it and fail with an error entry; no warning
  is logged and nothing is dropped without an attempt.
\<close>

theorem send_failure_counterexample:
  "desktop_connection
     (fst (send_error_to_desktop connected_bridge sample_event failing_world)) = Some WebSocket \<and>
   trace (snd (send_all connected_bridge
     [sample_event, sample_event, sample_event, sample_event] failing_world)) =
     [WsSend (EventMessage (sample_event\<lparr>source := Some ''adb_bridge'', timestamp_sent := Some 0\<rparr>)),
      Log ERROR ''Failed to send error to desktop'',
      WsSend (EventMessage (sample_event\<lparr>source := Some ''adb_bridge'', timestamp_sent := Some 0\<rparr>)),
      Log ERROR ''Failed to send error to desktop'',
      WsSend (EventMessage (sample_event\<lparr>source := Some ''adb_bridge'', timestamp_sent := Some 0\<rparr>)),
      Log ERROR ''Failed to send error to desktop'',
      WsSend (EventMessage (sample_event\<lparr>source := Some ''adb_bridge'', timestamp_sent := Some 0\<rparr>)),
      Log ERROR ''Failed to send error to desktop'']"
  by (simp add: send_error_to_desktop_def connected_bridge_def failing_world_def sample_world_def
        ws_send_def emit_def logger_def Let_def)

text \<open>
  C9, as stated, fails: the value written under \<open>source\<close> is \<open>adb_bridge\<close>, not
  \<open>bridge\<close>.
\<close>

theorem send_error_to_desktop_stamps_counterexample:
  "fst (snd (send_error_to_desktop connected_bridge sample_event sample_world)) =
     sample_event\<lparr>source := Some ''adb_bridge'', timestamp_sent := Some 0\<rparr> \<and>
   source (fst (snd (send_error_to_desktop connected_bridge sample_event sample_world))) \<noteq>
     Some ''bridge'' \<and>
   trace (snd (snd (send_error_to_desktop connected_bridge sample_event sample_world))) =
     [WsSend (EventMessage (sample_event\<lparr>source := Some ''adb_bridge'', timestamp_sent := Some 0\<rparr>)),
      Log INFO ''Sent Android error to desktop'']"
  by (simp add: send_error_to_desktop_def connected_bridge_def sample_world_def
        ws_send_def emit_def logger_def Let_def)

text \<open>
  C9, amended: for every event the classifier produces, the monitoring loop calls
  \<open>send_error_to_desktop\<close>; while a connection is held, that sets the event's
  \<open>source\<close> to \<open>adb_bridge\<close> and its \<open>timestamp_sent\<close> to the current time and then
  passes the event to the connection's \<open>send\<close>; with no connection the event is neither
  stamped nor sent, and a warning is logged.
\<close>

theorem send_error_to_desktop_stamps:
  "(desktop_connection self = Some c \<longrightarrow>
      fst (snd (send_error_to_desktop self ev w)) =
        ev\<lparr>source := Some ''adb_bridge'', timestamp_sent := Some (time_time w (sends w))\<rparr> \<and>
      take 1 (drop (length (trace w)) (trace (snd (snd (send_error_to_desktop self ev w))))) =
        [WsSend (EventMessage
           (ev\<lparr>source := Some ''adb_bridge'', timestamp_sent := Some (time_time w (sends w))\<rparr>))]) \<and>
   (desktop_connection self = None \<longrightarrow>
      send_error_to_desktop self ev w =
        (self, ev, logger WARNING ''No connection to desktop, cannot send error'' w)) \<and>
   (is_monitoring self \<and> running w (ticks w) \<and> readline w (ticks w) = Some line \<and> line \<noteq> [] \<and>
    parse_log_line self line = Inr (Some ev) \<longrightarrow>
      monitor_loop self w =
        monitor_loop
          (fst (send_error_to_desktop self ev
             (logger INFO ''Detected Android error'' (w\<lparr>ticks := Suc (ticks w)\<rparr>))))
          (snd (snd (send_error_to_desktop self ev
             (logger INFO ''Detected Android error'' (w\<lparr>ticks := Suc (ticks w)\<rparr>))))))"
proof (intro conjI impI)
  assume c: "desktop_connection self = Some c"
  show "fst (snd (send_error_to_desktop self ev w)) =
        ev\<lparr>source := Some ''adb_bridge'', timestamp_sent := Some (time_time w (sends w))\<rparr>"
    using send_error_connected(2) [OF c] by (simp add: stamped_def)
  show "take 1 (drop (length (trace w)) (trace (snd (snd (send_error_to_desktop self ev w))))) =
        [WsSend (EventMessage
           (ev\<lparr>source := Some ''adb_bridge'', timestamp_sent := Some (time_time w (sends w))\<rparr>))]"
    unfolding send_error_connected(3) [OF c] by (simp add: stamped_def)
next
  assume "desktop_connection self = None"
  then show "send_error_to_desktop self ev w =
        (self, ev, logger WARNING ''No connection to desktop, cannot send error'' w)"
    by (simp add: send_error_to_desktop_def)
next
  assume a: "is_monitoring self \<and> running w (ticks w) \<and> readline w (ticks w) = Some line \<and>
    line \<noteq> [] \<and> parse_log_line self line = Inr (Some ev)"
  show "monitor_loop self w =
        monitor_loop
          (fst (send_error_to_desktop self ev
             (logger INFO ''Detected Android error'' (w\<lparr>ticks := Suc (ticks w)\<rparr>))))
          (snd (snd (send_error_to_desktop self ev
             (logger INFO ''Detected Android error'' (w\<lparr>ticks := Suc (ticks w)\<rparr>)))))"
    by (subst monitor_loop.simps) (use a in simp)
qed

lemma parse_sample_line:
  "parse_log_line monitoring_bridge
     (''01-01 00:00:00.000 1-1/1 E AndroidRuntime: FATAL EXCEPTION: main'' @ [CHR 0x0A]) =
   Inr (Some (sample_event\<lparr>ev_device_id := Some ''emulator-5554''\<rparr>))"
  by code_simp

theorem send_error_to_desktop_stamps_witness:
  "desktop_connection connected_bridge = Some WebSocket \<and>
   fst (snd (send_error_to_desktop connected_bridge sample_event sample_world)) =
     sample_event\<lparr>source := Some ''adb_bridge'',
       timestamp_sent := Some (time_time sample_world (sends sample_world))\<rparr> \<and>
   take 1 (drop (length (trace sample_world))
     (trace (snd (snd (send_error_to_desktop connected_bridge sample_event sample_world))))) =
     [WsSend (EventMessage (sample_event\<lparr>source := Some ''adb_bridge'',
        timestamp_sent := Some (time_time sample_world (sends sample_world))\<rparr>))] \<and>
   desktop_connection sample_bridge = None \<and>
   send_error_to_desktop sample_bridge sample_event sample_world =
     (sample_bridge, sample_event,
      logger WARNING ''No connection to desktop, cannot send error'' sample_world) \<and>
   is_monitoring monitoring_bridge \<and> running line_world (ticks line_world) \<and>
   readline line_world (ticks line_world) =
     Some (''01-01 00:00:00.000 1-1/1 E AndroidRuntime: FATAL EXCEPTION: main'' @ [CHR 0x0A]) \<and>
   parse_log_line monitoring_bridge
     (''01-01 00:00:00.000 1-1/1 E AndroidRuntime: FATAL EXCEPTION: main'' @ [CHR 0x0A]) =
     Inr (Some (sample_event\<lparr>ev_device_id := Some ''emulator-5554''\<rparr>)) \<and>
   monitor_loop monitoring_bridge line_world =
     monitor_loop
       (fst (send_error_to_desktop monitoring_bridge
          (sample_event\<lparr>ev_device_id := Some ''emulator-5554''\<rparr>)
          (logger INFO ''Detected Android error'' (line_world\<lparr>ticks := Suc (ticks line_world)\<rparr>))))
       (snd (snd (send_error_to_desktop monitoring_bridge
          (sample_event\<lparr>ev_device_id := Some ''emulator-5554''\<rparr>)
          (logger INFO ''Detected Android error'' (line_world\<lparr>ticks := Suc (ticks line_world)\<rparr>)))))"
proof -
  have a: "desktop_connection connected_bridge = Some WebSocket"
    by (simp add: connected_bridge_def)
  have b: "desktop_connection sample_bridge = None"
    by (simp add: sample_bridge_def)
  have c: "is_monitoring monitoring_bridge"
    by (simp add: monitoring_bridge_def)
  have d: "running line_world (ticks line_world)"
    by (simp add: line_world_def sample_world_def)
  have e: "readline line_world (ticks line_world) =
     Some (''01-01 00:00:00.000 1-1/1 E AndroidRuntime: FATAL EXCEPTION: main'' @ [CHR 0x0A])"
    by (simp add: line_world_def sample_world_def)
  have f: "''01-01 00:00:00.000 1-1/1 E AndroidRuntime: FATAL EXCEPTION: main'' @ [CHR 0x0A] \<noteq> []"
    by simp
  note g = parse_sample_line
  note t1 = send_error_to_desktop_stamps [of connected_bridge WebSocket sample_event sample_world,
      THEN conjunct1, THEN mp, OF a]
  note t2 = send_error_to_desktop_stamps [of sample_bridge _ sample_event sample_world,
      THEN conjunct2, THEN conjunct1, THEN mp, OF b]
  have t3: "monitor_loop monitoring_bridge line_world =
     monitor_loop
       (fst (send_error_to_desktop monitoring_bridge
          (sample_event\<lparr>ev_device_id := Some ''emulator-5554''\<rparr>)
          (logger INFO ''Detected Android error'' (line_world\<lparr>ticks := Suc (ticks line_world)\<rparr>))))
       (snd (snd (send_error_to_desktop monitoring_bridge
          (sample_event\<lparr>ev_device_id := Some ''emulator-5554''\<rparr>)
          (logger INFO ''Detected Android error'' (line_world\<lparr>ticks := Suc (ticks line_world)\<rparr>)))))"
    by (rule send_error_to_desktop_stamps [THEN conjunct2, THEN conjunct2, THEN mp],
        intro conjI, rule c, rule d, rule e, rule f, rule g)
  from a b c d e g t1 t2 t3 show ?thesis
    by (intro conjI) (elim conjE, assumption)+
qed

section \<open>Stopping and starting a session (C8, C7)\<close>





text \<open>
  C7: the code at the failing inputs.  With the connection made and no device attached,
  \<open>start_monitoring\<close> returns with the object not monitoring and no subprocess, but with
  the connection still held and never closed; \<open>run\<close> then calls \<open>stop_monitoring\<close>, which
  returns at once because the object is not monitoring.  The same holds when the device is
  there and the subprocess cannot be started.  When instead the status message after
  the start cannot be sent, the handler's \<open>stop_monitoring\<close> does close the connection.
\<close>

theorem start_monitoring_no_device:
  "map_option (is_monitoring \<circ> fst) (start_monitoring sample_bridge sample_world) = Some False \<and>
   map_option (adb_process \<circ> fst) (start_monitoring sample_bridge sample_world) = Some None \<and>
   map_option (desktop_connection \<circ> fst) (start_monitoring sample_bridge sample_world) =
     Some (Some WebSocket) \<and>
   map_option (trace \<circ> snd) (start_monitoring sample_bridge sample_world) =
     Some [WsConnect, Log INFO ''Connected to OraFlow Desktop'',
           WsSend (StatusMessage ''adb_bridge_status'' ''connected'' None
             ''ADB Bridge connected successfully''),
           AdbDevices, Log WARNING ''No Android devices connected'',
           Log ERROR ''No Android device available for monitoring''] \<and>
   map_option (desktop_connection \<circ> fst) (run sample_bridge sample_world) = Some (Some WebSocket) \<and>
   map_option (trace \<circ> snd) (run sample_bridge sample_world) =
     Some [Log INFO ''Starting MCP ADB Bridge...'',
           WsConnect, Log INFO ''Connected to OraFlow Desktop'',
           WsSend (StatusMessage ''adb_bridge_status'' ''connected'' None
             ''ADB Bridge connected successfully''),
           AdbDevices, Log WARNING ''No Android devices connected'',
           Log ERROR ''No Android device available for monitoring''] \<and>
   map_option (desktop_connection \<circ> fst) (run sample_bridge (device_world\<lparr>popen_ok := False\<rparr>)) =
     Some (Some WebSocket) \<and>
   map_option (trace \<circ> snd) (run sample_bridge (device_world\<lparr>popen_ok := False\<rparr>)) =
     Some [Log INFO ''Starting MCP ADB Bridge...'',
           WsConnect, Log INFO ''Connected to OraFlow Desktop'',
           WsSend (StatusMessage ''adb_bridge_status'' ''connected'' None
             ''ADB Bridge connected successfully''),
           AdbDevices, Log INFO ''Auto-selected device'',
           Log INFO ''Starting ADB logcat for device'',
           Log INFO ''Command: adb -s <device> logcat *:E -v threadtime'',
           Log ERROR ''Failed to start ADB logcat'',
           Log ERROR ''Failed to start ADB logcat''] \<and>
   map_option (trace \<circ> snd) (run sample_bridge (device_world\<lparr>send_ok := (\<lambda>k. k = 0)\<rparr>)) =
     Some [Log INFO ''Starting MCP ADB Bridge...'',
           WsConnect, Log INFO ''Connected to OraFlow Desktop'',
           WsSend (StatusMessage ''adb_bridge_status'' ''connected'' None
             ''ADB Bridge connected successfully''),
           AdbDevices, Log INFO ''Auto-selected device'',
           Log INFO ''Starting ADB logcat for device'',
           Log INFO ''Command: adb -s <device> logcat *:E -v threadtime'',
           ProcStart ''emulator-5554'',
           WsSend (StatusMessage ''adb_monitoring_status'' ''active'' (Some ''emulator-5554'')
             ''Monitoring Android device''),
           Log ERROR ''Failed to start ADB Bridge'',
           ProcTerminate, ProcWait, Log INFO ''ADB logcat process stopped'',
           WsSend (StatusMessage ''adb_monitoring_status'' ''stopped'' None
             ''ADB Bridge monitoring stopped''),
           Log ERROR ''Failed to send stop status'',
           WsClose, Log INFO ''ADB Bridge stopped and disconnected from desktop'']"
  by code_simp

end
